theory Spec2Isabelle
  imports Main "HOL-Library.AList"
begin

section \<open>Text\<close>

text \<open>
  A Python \<^verbatim>\<open>str\<close> is modelled as a \<^typ>\<open>string\<close>: the list of its code points.
  A \<^typ>\<open>char\<close> has eight bits, so the model covers the code points below 256; the
  character classes below are Python's for that range (\<^verbatim>\<open>str.isspace\<close>, the \<^verbatim>\<open>\s\<close>
  and \<^verbatim>\<open>\w\<close> of \<^verbatim>\<open>re\<close> on a str pattern, the line boundaries of
  \<^verbatim>\<open>str.splitlines\<close>).
\<close>

abbreviation LF :: char where "LF \<equiv> CHR 0x0A"
abbreviation CR :: char where "CR \<equiv> CHR 0x0D"
abbreviation BSL :: char where "BSL \<equiv> CHR 0x5C"

definition isspace :: "char \<Rightarrow> bool" where
  "isspace c = (of_char c \<in> {9, 10, 11, 12, 13, 28, 29, 30, 31, 32, 133, 160 :: nat})"

definition isword :: "char \<Rightarrow> bool" where
  "isword c =
     (let n = (of_char c :: nat) in
      (48 \<le> n \<and> n \<le> 57) \<or> (65 \<le> n \<and> n \<le> 90) \<or> n = 95 \<or> (97 \<le> n \<and> n \<le> 122) \<or>
      n \<in> {170, 178, 179, 181, 185, 186, 188, 189, 190} \<or>
      (192 \<le> n \<and> n \<le> 214) \<or> (216 \<le> n \<and> n \<le> 246) \<or> 248 \<le> n)"

definition is_linebreak :: "char \<Rightarrow> bool" where
  "is_linebreak c = (of_char c \<in> {10, 11, 12, 13, 28, 29, 30, 133 :: nat})"

definition lstrip :: "string \<Rightarrow> string" where
  "lstrip s = dropWhile isspace s"

definition rstrip :: "string \<Rightarrow> string" where
  "rstrip s = rev (dropWhile isspace (rev s))"

definition strip :: "string \<Rightarrow> string" where
  "strip s = lstrip (rstrip s)"

definition rstrip_chars :: "string \<Rightarrow> string \<Rightarrow> string" where
  "rstrip_chars cs s = rev (dropWhile (\<lambda>c. c \<in> set cs) (rev s))"

definition startswith :: "string \<Rightarrow> string \<Rightarrow> bool" where
  "startswith s p = (take (length p) s = p)"

definition endswith :: "string \<Rightarrow> string \<Rightarrow> bool" where
  "endswith s p = (length p \<le> length s \<and> drop (length s - length p) s = p)"

text \<open>\<^verbatim>\<open>s.split(sep)\<close> for a one-character separator: never the empty list.\<close>

fun split_char :: "char \<Rightarrow> string \<Rightarrow> string list" where
  "split_char sep [] = [[]]"
| "split_char sep (c # cs) =
     (if c = sep then [] # split_char sep cs
      else (case split_char sep cs of
              [] \<Rightarrow> [[c]]
            | x # xs \<Rightarrow> (c # x) # xs))"

text \<open>The first occurrence of \<open>sub\<close> in a string: what stands before it and after it.\<close>

fun find_sub :: "string \<Rightarrow> string \<Rightarrow> (string \<times> string) option" where
  "find_sub sub [] = (if sub = [] then Some ([], []) else None)"
| "find_sub sub (c # cs) =
     (if startswith (c # cs) sub then Some ([], drop (length sub) (c # cs))
      else map_option (\<lambda>(a, b). (c # a, b)) (find_sub sub cs))"

definition contains :: "string \<Rightarrow> string \<Rightarrow> bool" where
  "contains s sub = (find_sub sub s \<noteq> None)"

fun join :: "string \<Rightarrow> string list \<Rightarrow> string" where
  "join sep [] = []"
| "join sep [x] = x"
| "join sep (x # y # ys) = x @ sep @ join sep (y # ys)"

text \<open>
  \<^verbatim>\<open>s.splitlines(keepends=True)\<close>: a line ends at a line boundary, CR LF counting as
  one; the text after the last boundary is a line when it is not empty.
\<close>

fun splitlines_from :: "string \<Rightarrow> string \<Rightarrow> string list" where
  "splitlines_from cur [] = (if cur = [] then [] else [cur])"
| "splitlines_from cur [c] = [cur @ [c]]"
| "splitlines_from cur (c # d # ds) =
     (if c = CR \<and> d = LF then (cur @ [CR, LF]) # splitlines_from [] ds
      else if is_linebreak c then (cur @ [c]) # splitlines_from [] (d # ds)
      else splitlines_from (cur @ [c]) (d # ds))"

definition splitlines :: "string \<Rightarrow> string list" where
  "splitlines s = splitlines_from [] s"

text \<open>Decimal digits of a number, as \<^verbatim>\<open>str(n)\<close> and \<^verbatim>\<open>f"{n}"\<close> give them.\<close>

fun str_nat :: "nat \<Rightarrow> string" where
  "str_nat n =
     (if n < 10 then [char_of (48 + n)] else str_nat (n div 10) @ [char_of (48 + n mod 10)])"

declare str_nat.simps [simp del]

section \<open>Regular expressions\<close>

text \<open>
  A pattern is written with the combinators below, each taking the matcher of the rest of
  the pattern: a matcher reads the character before the position (for \<^verbatim>\<open>\b\<close>) and the
  text from the position on. \<open>greedy\<close> is a repetition of a character class: the
  longest run first, then one character less at a time while the rest of the pattern
  fails, as the backtracking of \<^verbatim>\<open>re\<close> does.
\<close>

type_synonym 'a matcher = "char option \<Rightarrow> string \<Rightarrow> 'a option"

definition lit :: "string \<Rightarrow> 'a matcher \<Rightarrow> 'a matcher" where
  "lit l k prev s =
     (if startswith s l then k (if l = [] then prev else Some (last l)) (drop (length l) s)
      else None)"

fun try_down :: "nat \<Rightarrow> nat \<Rightarrow> (nat \<Rightarrow> 'a option) \<Rightarrow> 'a option" where
  "try_down 0 least f = (if least = 0 then f 0 else None)"
| "try_down (Suc n) least f =
     (if Suc n < least then None
      else (case f (Suc n) of
              Some r \<Rightarrow> Some r
            | None \<Rightarrow> try_down n least f))"

definition greedy :: "(char \<Rightarrow> bool) \<Rightarrow> nat \<Rightarrow> (string \<Rightarrow> 'a matcher) \<Rightarrow> 'a matcher" where
  "greedy cls least k prev s =
     try_down (length (takeWhile cls s)) least
       (\<lambda>n. k (take n s) (if n = 0 then prev else Some (s ! (n - 1))) (drop n s))"

definition word_boundary :: "'a matcher \<Rightarrow> 'a matcher" where
  "word_boundary k prev s =
     (if (case prev of None \<Rightarrow> False | Some c \<Rightarrow> isword c) \<noteq>
         (case s of [] \<Rightarrow> False | c # _ \<Rightarrow> isword c)
      then k prev s else None)"

text \<open>\<^verbatim>\<open>$\<close>: the end of the text, or just before a newline that ends the text.\<close>

definition end_of_text :: "'a matcher \<Rightarrow> 'a matcher" where
  "end_of_text k prev s = (if s = [] \<or> s = [LF] then k prev s else None)"

fun alternatives :: "'a matcher list \<Rightarrow> 'a matcher" where
  "alternatives [] prev s = None"
| "alternatives (m # ms) prev s =
     (case m prev s of
        Some r \<Rightarrow> Some r
      | None \<Rightarrow> alternatives ms prev s)"

definition accept :: "'a \<Rightarrow> 'a matcher" where
  "accept r prev s = Some r"

definition not_newline :: "char \<Rightarrow> bool" where
  "not_newline c = (c \<noteq> LF)"

text \<open>\<^verbatim>\<open>pattern.match(s)\<close>: the pattern at the start of the text.\<close>

definition re_match :: "'a matcher \<Rightarrow> string \<Rightarrow> 'a option" where
  "re_match m s = m None s"

section \<open>tools/fix\_collections\_imports.py\<close>

text \<open>
  \<^verbatim>\<open>^(?P<indent>\s*)from\s+collections\s+import\s+(?P<imports>.+)$\<close>, giving the groups
  \<open>indent\<close> and \<open>imports\<close>.
\<close>

definition FROM_COLLECTIONS_RE :: "(string \<times> string) matcher" where
  "FROM_COLLECTIONS_RE =
     greedy isspace 0 (\<lambda>indent.
       lit ''from'' (greedy isspace 1 (\<lambda>_.
         lit ''collections'' (greedy isspace 1 (\<lambda>_.
           lit ''import'' (greedy isspace 1 (\<lambda>_.
             greedy not_newline 1 (\<lambda>imports.
               end_of_text (accept (indent, imports))))))))))"

text \<open>\<^verbatim>\<open>^\s*import\s+(?P<imports>.+)$\<close>, giving the group \<open>imports\<close>.\<close>

definition IMPORT_COLLECTIONS_RE :: "string matcher" where
  "IMPORT_COLLECTIONS_RE =
     greedy isspace 0 (\<lambda>_.
       lit ''import'' (greedy isspace 1 (\<lambda>_.
         greedy not_newline 1 (\<lambda>imports.
           end_of_text (accept imports)))))"

text \<open>
  \<^verbatim>\<open>^\s*(import\s+collections\.abc\b|from\s+collections\.abc\s+import\b|from\s+collections\s+import\s+abc\b)\<close>
\<close>

definition COLLECTIONS_ABC_IMPORT_RE :: "unit matcher" where
  "COLLECTIONS_ABC_IMPORT_RE =
     greedy isspace 0 (\<lambda>_.
       alternatives
         [lit ''import'' (greedy isspace 1 (\<lambda>_.
            lit ''collections.abc'' (word_boundary (accept ())))),
          lit ''from'' (greedy isspace 1 (\<lambda>_.
            lit ''collections.abc'' (greedy isspace 1 (\<lambda>_.
              lit ''import'' (word_boundary (accept ())))))),
          lit ''from'' (greedy isspace 1 (\<lambda>_.
            lit ''collections'' (greedy isspace 1 (\<lambda>_.
              lit ''import'' (greedy isspace 1 (\<lambda>_.
                lit ''abc'' (word_boundary (accept ()))))))))])"

text \<open>\<^verbatim>\<open>^\s*(import\s+collections\b|from\s+collections\s+import\b)\<close>\<close>

definition COLLECTIONS_IMPORT_RE :: "unit matcher" where
  "COLLECTIONS_IMPORT_RE =
     greedy isspace 0 (\<lambda>_.
       alternatives
         [lit ''import'' (greedy isspace 1 (\<lambda>_.
            lit ''collections'' (word_boundary (accept ())))),
          lit ''from'' (greedy isspace 1 (\<lambda>_.
            lit ''collections'' (greedy isspace 1 (\<lambda>_.
              lit ''import'' (word_boundary (accept ()))))))])"

text \<open>
  The table \<^verbatim>\<open>REPLACEMENTS\<close>, in its order. Each pattern is
  \<^verbatim>\<open>\bcollections\.NAME\b\<close>: the entry holds the text between the two \<^verbatim>\<open>\b\<close> and
  the replacement.
\<close>

definition REPLACEMENTS :: "(string \<times> string) list" where
  "REPLACEMENTS =
     [(''collections.MutableMapping'', ''collections.abc.MutableMapping''),
      (''collections.Iterable'', ''collections.abc.Iterable''),
      (''collections.Callable'', ''collections.abc.Callable'')]"

text \<open>The source text of a pattern of the table (\<^verbatim>\<open>pattern.pattern\<close>).\<close>

definition pattern_text :: "string \<Rightarrow> string" where
  "pattern_text old =
     [BSL] @ ''b'' @ concat (map (\<lambda>c. if c = CHR ''.'' then [BSL, c] else [c]) old) @ [BSL] @ ''b''"

record Change =
  line_no :: nat
  description :: string

record FileResult =
  path :: string
  changes :: "Change list"
  updated :: bool

definition split_comment :: "string \<Rightarrow> string \<times> string" where
  "split_comment line =
     (if CHR ''#'' \<notin> set line then (line, [])
      else (takeWhile (\<lambda>c. c \<noteq> CHR ''#'') line, dropWhile (\<lambda>c. c \<noteq> CHR ''#'') line))"

definition parse_import_items :: "string \<Rightarrow> string list" where
  "parse_import_items imports_part =
     (let s = strip imports_part;
          s' = (if startswith s ''('' \<and> endswith s '')'' then butlast (tl s) else s)
      in filter (\<lambda>item. item \<noteq> []) (map strip (split_char (CHR '','') s')))"

definition base_import_name :: "string \<Rightarrow> string" where
  "base_import_name item =
     (case find_sub '' as '' item of
        Some (front, _) \<Rightarrow> strip front
      | None \<Rightarrow> strip item)"

definition process_from_collections_import :: "string \<Rightarrow> nat \<Rightarrow> string list \<times> Change list" where
  "process_from_collections_import line lno =
     (let line_no_ending = rstrip_chars [CR, LF] line in
      case re_match FROM_COLLECTIONS_RE line_no_ending of
        None \<Rightarrow> ([line], [])
      | Some (indent, imports_part) \<Rightarrow>
          (let line_ending =
                 (if endswith line [CR, LF] then [CR, LF]
                  else if endswith line [LF] then [LF] else []);
               (code, comment) = split_comment imports_part;
               items = parse_import_items code
           in if items = [] \<or> ''*'' \<in> set items then ([line], [])
              else
                (let mutable_items =
                       filter (\<lambda>item. base_import_name item = ''MutableMapping'') items
                 in if mutable_items = [] then ([line], [])
                    else
                      (let remaining_items =
                             filter (\<lambda>item. base_import_name item \<noteq> ''MutableMapping'') items;
                           mutable_imports = join '', '' mutable_items
                       in if remaining_items \<noteq> [] then
                            ([indent @ ''from collections import '' @ join '', '' remaining_items
                                @ comment @ line_ending,
                              indent @ ''from collections.abc import '' @ mutable_imports
                                @ line_ending],
                             [\<lparr>line_no = lno,
                               description = ''removed MutableMapping from collections import''\<rparr>])
                          else
                            ([indent @ ''from collections.abc import '' @ mutable_imports
                                @ comment @ line_ending],
                             [\<lparr>line_no = lno,
                               description =
                                 ''replaced collections import with collections.abc for MutableMapping''\<rparr>])))))"

text \<open>
  A pattern \<^verbatim>\<open>\bOLD\b\<close> of the table, \<^verbatim>\<open>pattern.search\<close> (a match at some position,
  leftmost first) and \<^verbatim>\<open>pattern.sub\<close> (every match replaced, from left to right, the
  scan going on behind each match). No pattern of the table matches the empty text.
\<close>

definition usage_pattern :: "string \<Rightarrow> unit matcher" where
  "usage_pattern old = word_boundary (lit old (word_boundary (accept ())))"

fun re_search_from :: "unit matcher \<Rightarrow> char option \<Rightarrow> string \<Rightarrow> bool" where
  "re_search_from m prev [] = (m prev [] \<noteq> None)"
| "re_search_from m prev (c # cs) = (m prev (c # cs) \<noteq> None \<or> re_search_from m (Some c) cs)"

definition re_search :: "unit matcher \<Rightarrow> string \<Rightarrow> bool" where
  "re_search m s = re_search_from m None s"

function re_sub_from :: "string \<Rightarrow> string \<Rightarrow> char option \<Rightarrow> string \<Rightarrow> string" where
  "re_sub_from old new prev [] = []"
| "re_sub_from old new prev (c # cs) =
     (if old \<noteq> [] \<and> usage_pattern old prev (c # cs) \<noteq> None
      then new @ re_sub_from old new (Some (last old)) (drop (length old) (c # cs))
      else c # re_sub_from old new (Some c) cs)"
  by pat_completeness auto
termination
  by (relation "measure (\<lambda>(old, new, prev, s). length s)") auto

definition re_sub :: "string \<Rightarrow> string \<Rightarrow> string \<Rightarrow> string" where
  "re_sub old new s = re_sub_from old new None s"

fun replace_loop :: "(string \<times> string) list \<Rightarrow> string \<Rightarrow> nat \<Rightarrow> string \<times> Change list" where
  "replace_loop [] new_line lno = (new_line, [])"
| "replace_loop ((old, replacement) # table) new_line lno =
     (if re_search (usage_pattern old) new_line then
        (let (l, cs) = replace_loop table (re_sub old replacement new_line) lno
         in (l, \<lparr>line_no = lno,
                 description = ''replaced '' @ pattern_text old @ '' with '' @ replacement\<rparr> # cs))
      else replace_loop table new_line lno)"

definition replace_collections_usage :: "string \<Rightarrow> nat \<Rightarrow> string \<times> Change list" where
  "replace_collections_usage line lno = replace_loop REPLACEMENTS line lno"

definition has_collections_abc_import :: "string list \<Rightarrow> bool" where
  "has_collections_abc_import lines =
     list_ex (\<lambda>line. re_match COLLECTIONS_ABC_IMPORT_RE line \<noteq> None) lines"

fun has_collections_import :: "string list \<Rightarrow> bool" where
  "has_collections_import [] = False"
| "has_collections_import (line # lines) =
     (if re_match COLLECTIONS_IMPORT_RE line = None then has_collections_import lines
      else if startswith (lstrip line) ''import '' then
        (case re_match IMPORT_COLLECTIONS_RE line of
           None \<Rightarrow> True
         | Some imports \<Rightarrow>
             (let (code, _) = split_comment imports;
                  items = parse_import_items code
              in if list_ex (\<lambda>item. startswith (base_import_name item) ''collections'') items
                 then True
                 else has_collections_import lines))
      else True)"

text \<open>
  The loop of \<^verbatim>\<open>insert_collections_abc_import\<close> over \<^verbatim>\<open>enumerate(lines)\<close>: the index
  behind the last line that the pattern matches.
\<close>

fun insert_at_loop :: "nat \<Rightarrow> string list \<Rightarrow> nat option \<Rightarrow> nat option" where
  "insert_at_loop idx [] insert_at = insert_at"
| "insert_at_loop idx (line # lines) insert_at =
     insert_at_loop (Suc idx) lines
       (if re_match COLLECTIONS_IMPORT_RE line \<noteq> None then Some (idx + 1) else insert_at)"

definition insert_collections_abc_import ::
  "string list \<Rightarrow> string \<Rightarrow> Change list \<Rightarrow> string list \<times> Change list" where
  "insert_collections_abc_import lines newline chs =
     (case insert_at_loop 0 lines None of
        None \<Rightarrow> (lines, chs)
      | Some insert_at \<Rightarrow>
          (take insert_at lines @ [''import collections.abc'' @ newline] @ drop insert_at lines,
           chs @ [\<lparr>line_no = insert_at + 1, description = ''added import collections.abc''\<rparr>]))"

text \<open>
  The loops of \<^verbatim>\<open>process_file\<close> over the lines of the file and, for each, over the lines
  the import rule gives: the lists \<^verbatim>\<open>updated_lines\<close> and \<^verbatim>\<open>changes\<close> they build.
\<close>

fun replace_new_lines :: "string list \<Rightarrow> nat \<Rightarrow> string list \<times> Change list" where
  "replace_new_lines [] idx = ([], [])"
| "replace_new_lines (new_line # new_lines) idx =
     (let (replaced_line, line_changes) = replace_collections_usage new_line idx;
          (ls, cs) = replace_new_lines new_lines idx
      in (replaced_line # ls, line_changes @ cs))"

fun rewrite_lines :: "nat \<Rightarrow> string list \<Rightarrow> string list \<times> Change list" where
  "rewrite_lines idx [] = ([], [])"
| "rewrite_lines idx (line # lines) =
     (let (new_lines, import_changes) = process_from_collections_import line idx;
          (replaced, line_changes) = replace_new_lines new_lines idx;
          (ls, cs) = rewrite_lines (Suc idx) lines
      in (replaced @ ls, import_changes @ line_changes @ cs))"

text \<open>
  What \<^verbatim>\<open>process_file\<close> computes from the content it read, before it touches the
  file: \<^verbatim>\<open>updated_content\<close> and \<^verbatim>\<open>changes\<close>.
\<close>

definition rewrite_content :: "string \<Rightarrow> string \<times> Change list" where
  "rewrite_content content =
     (let newline = (if contains content [CR, LF] then [CR, LF] else [LF]);
          lines = splitlines content;
          collections_imported = has_collections_import lines;
          collections_abc_imported = has_collections_abc_import lines;
          (updated_lines, chs) = rewrite_lines 1 lines;
          (updated_lines, chs) =
            (if collections_imported \<and> \<not> collections_abc_imported
                \<and> \<not> has_collections_abc_import updated_lines
             then insert_collections_abc_import updated_lines newline chs
             else (updated_lines, chs))
      in (concat updated_lines, chs))"

text \<open>
  The Transformation Engine: the new content and the changes that \<^verbatim>\<open>process_file\<close>
  reports for a content (none when the content stays as it is).
\<close>

definition transform :: "string \<Rightarrow> string \<times> Change list" where
  "transform content =
     (let (updated_content, chs) = rewrite_content content
      in if updated_content = content then (content, []) else (updated_content, chs))"

section \<open>The file tree\<close>

text \<open>
  A path is the string of a \<^verbatim>\<open>pathlib\<close> path whose last part is not empty, as every
  path is that the tools build (\<^verbatim>\<open>repo_root / name\<close>, a file \<^verbatim>\<open>os.walk\<close> gives);
  for such a path \<^verbatim>\<open>path.with_name(path.name + ext)\<close> is the string with \<open>ext\<close> at its
  end. The file tree is an association list from the paths of the files to their
  contents; a directory exists when a file lies under it. A file holds text, or one of
  the JSON documents the program writes with \<^verbatim>\<open>json.dumps\<close> and reads with
  \<^verbatim>\<open>json.loads\<close>: a document is kept as the value it encodes, its characters are not
  modelled. Failures of the operating system on a file that exists (permissions, a
  full disk) are not modelled.
\<close>

record ChangeRecord =
  cr_path :: string
  cr_description :: string

record dependency =
  required :: string
  installed :: "string option"
  dep_status :: string

record test_result =
  tests_command :: string
  tests_status :: string
  tests_output :: string

record summary =
  python_ok :: bool
  dependencies_ok :: bool
  patches_applied :: bool
  summary_tests_status :: string

record report =
  timestamp :: string
  python_version :: string
  python_issue :: "string option"
  dependencies :: "(string \<times> dependency) list"
  report_changes :: "ChangeRecord list"
  tests :: test_result
  report_summary :: summary

datatype content =
  Text string
| Ledger "string list" "string list"
| Report report

type_synonym fs = "(string \<times> content) list"

datatype error =
  FileNotFoundError string
| UnicodeDecodeError string
| JSONDecodeError string
| ValueError string

definition path_exists :: "fs \<Rightarrow> string \<Rightarrow> bool" where
  "path_exists fs p = (map_of fs p \<noteq> None)"

definition dir_exists :: "fs \<Rightarrow> string \<Rightarrow> bool" where
  "dir_exists fs d = list_ex (\<lambda>p. startswith p (d @ ''/'')) (map fst fs)"

definition write_file :: "string \<Rightarrow> content \<Rightarrow> fs \<Rightarrow> fs" where
  "write_file p c fs = AList.update p c fs"

definition unlink :: "string \<Rightarrow> fs \<Rightarrow> fs" where
  "unlink p fs = AList.delete p fs"

definition path_name :: "string \<Rightarrow> string" where
  "path_name p = rev (takeWhile (\<lambda>c. c \<noteq> CHR ''/'') (rev p))"

definition path_parent :: "string \<Rightarrow> string" where
  "path_parent p = rev (dropWhile (\<lambda>c. c \<noteq> CHR ''/'') (rev p))"

text \<open>
  \<^verbatim>\<open>path.with_name(name)\<close>: ValueError when the path has no name, or the new name is
  empty, a dot or holds a separator.
\<close>

definition with_name :: "string \<Rightarrow> string \<Rightarrow> error + string" where
  "with_name p name =
     (if path_name p = [] then Inl (ValueError p)
      else if name = [] \<or> name = ''.'' \<or> CHR ''/'' \<in> set name then Inl (ValueError name)
      else Inr (path_parent p @ name))"

text \<open>
  Reading in text mode (\<^verbatim>\<open>Path.read_text\<close>, \<^verbatim>\<open>tokenize.open\<close>) turns CR LF and a
  lone CR into LF. A file that is not text cannot be read as text.
\<close>

fun universal_newlines :: "string \<Rightarrow> string" where
  "universal_newlines [] = []"
| "universal_newlines [c] = (if c = CR then [LF] else [c])"
| "universal_newlines (c # d # ds) =
     (if c = CR \<and> d = LF then LF # universal_newlines ds
      else if c = CR then LF # universal_newlines (d # ds)
      else c # universal_newlines (d # ds))"

definition read_text :: "fs \<Rightarrow> string \<Rightarrow> error + string" where
  "read_text fs p =
     (case map_of fs p of
        None \<Rightarrow> Inl (FileNotFoundError p)
      | Some (Text t) \<Rightarrow> Inr (universal_newlines t)
      | Some _ \<Rightarrow> Inl (UnicodeDecodeError p))"

definition str_error :: "error \<Rightarrow> string" where
  "str_error e =
     (case e of
        FileNotFoundError p \<Rightarrow> ''[Errno 2] No such file or directory: '' @ p
      | UnicodeDecodeError p \<Rightarrow> ''invalid start byte''
      | JSONDecodeError p \<Rightarrow> ''Expecting value''
      | ValueError p \<Rightarrow> ''Invalid name '' @ p)"

text \<open>The digits of \<open>str_nat\<close> give the number back, so different numbers have different digits.\<close>

definition digits_value :: "string \<Rightarrow> nat" where
  "digits_value s = foldl (\<lambda>a c. 10 * a + (of_char c - 48)) 0 s"

lemma digits_value_str_nat: "digits_value (str_nat n) = n"
proof (induction n rule: str_nat.induct)
  case (1 n)
  show ?case
  proof (cases "n < 10")
    case True
    then have "of_char (char_of (48 + n)) = 48 + n"
      by (simp add: of_char_of [where ?'a = nat])
    moreover have "str_nat n = [char_of (48 + n)]"
      using True by (subst str_nat.simps) simp
    ultimately show ?thesis by (simp add: digits_value_def)
  next
    case False
    have "of_char (char_of (48 + n mod 10)) = 48 + n mod 10"
      by (simp add: of_char_of [where ?'a = nat])
    moreover have "digits_value (str_nat (n div 10)) = n div 10" using "1" False by simp
    moreover have "str_nat n = str_nat (n div 10) @ [char_of (48 + n mod 10)]"
      using False by (subst str_nat.simps) simp
    ultimately show ?thesis by (simp add: digits_value_def)
  qed
qed

lemma inj_str_nat: "inj str_nat"
  by (rule inj_on_inverseI [where g = digits_value]) (rule digits_value_str_nat)

lemma finite_numbered_names:
  "finite {k. map_of (fs :: fs) (p @ ext @ ''.'' @ str_nat k) \<noteq> None}"
proof -
  have "inj (\<lambda>k. p @ ext @ ''.'' @ str_nat k)"
    using inj_str_nat by (auto simp: inj_def)
  then have "finite ((\<lambda>k. p @ ext @ ''.'' @ str_nat k) -` dom (map_of fs))"
    by (intro finite_vimageI) (simp_all add: finite_dom_map_of)
  moreover have "{k. map_of fs (p @ ext @ ''.'' @ str_nat k) \<noteq> None}
                 = (\<lambda>k. p @ ext @ ''.'' @ str_nat k) -` dom (map_of fs)"
    by (auto simp: dom_def)
  ultimately show ?thesis by simp
qed

text \<open>
  \<^verbatim>\<open>backup_path\<close>: the name with the extension, or with the first number from 1 on
  that gives a free name. The loop ends because the tree has finitely many files.
\<close>

function backup_path_loop :: "fs \<Rightarrow> string \<Rightarrow> string \<Rightarrow> nat \<Rightarrow> string" where
  "backup_path_loop fs p backup_ext counter =
     (let candidate = p @ backup_ext @ ''.'' @ str_nat counter
      in if \<not> path_exists fs candidate then candidate
         else backup_path_loop fs p backup_ext (Suc counter))"
  by pat_completeness auto
termination
proof (relation "measure (\<lambda>(fs, p, ext, counter).
         card {k. counter \<le> k \<and> map_of fs (p @ ext @ ''.'' @ str_nat k) \<noteq> None})", goal_cases)
  case 1
  show ?case by simp
next
  case (2 fs p ext counter candidate)
  let ?A = "\<lambda>c. {k. c \<le> k \<and> map_of fs (p @ ext @ ''.'' @ str_nat k) \<noteq> None}"
  have fin: "finite (?A counter)"
    by (rule finite_subset [OF _ finite_numbered_names [of fs p ext]]) auto
  have "counter \<in> ?A counter" using 2 by (simp add: path_exists_def)
  moreover have "counter \<notin> ?A (Suc counter)" by simp
  moreover have "?A (Suc counter) \<subseteq> ?A counter" by auto
  ultimately have "?A (Suc counter) \<subset> ?A counter" by blast
  then show ?case using fin by (simp add: psubset_card_mono)
qed

declare backup_path_loop.simps [simp del]

definition backup_path :: "fs \<Rightarrow> string \<Rightarrow> string \<Rightarrow> string" where
  "backup_path fs p backup_ext =
     (let candidate = p @ backup_ext
      in if \<not> path_exists fs candidate then candidate
         else backup_path_loop fs p backup_ext 1)"

text \<open>
  The records of the logger, and the text the file handler appends to the log file for
  them (format \<^verbatim>\<open>%(levelname)s: %(message)s\<close>).
\<close>

datatype log_level = INFO | WARNING | ERROR

type_synonym log_record = "log_level \<times> string"

definition format_record :: "log_record \<Rightarrow> string" where
  "format_record r =
     (case fst r of INFO \<Rightarrow> ''INFO'' | WARNING \<Rightarrow> ''WARNING'' | ERROR \<Rightarrow> ''ERROR'')
       @ '': '' @ snd r @ [LF]"

text \<open>
  Opening a file for appending creates it when it is missing; the log file is never one
  of the JSON documents, and the model keeps only the appended text if it were.
\<close>

definition open_append :: "string \<Rightarrow> fs \<Rightarrow> fs" where
  "open_append p fs = (if path_exists fs p then fs else write_file p (Text []) fs)"

definition append_text :: "string \<Rightarrow> string \<Rightarrow> fs \<Rightarrow> fs" where
  "append_text p t fs =
     (case map_of fs p of
        Some (Text old) \<Rightarrow> write_file p (Text (old @ t)) fs
      | _ \<Rightarrow> write_file p (Text t) fs)"

text \<open>\<^verbatim>\<open>shutil.copy2(src, dst)\<close>, where the callers have checked that \<open>src\<close> exists.\<close>

definition copy2 :: "string \<Rightarrow> string \<Rightarrow> fs \<Rightarrow> fs" where
  "copy2 src dst fs =
     (case map_of fs src of
        None \<Rightarrow> fs
      | Some c \<Rightarrow> write_file dst c fs)"

definition change_message :: "string \<Rightarrow> Change \<Rightarrow> log_record" where
  "change_message p c = (INFO, p @ '':'' @ str_nat (line_no c) @ '' '' @ description c)"

definition process_file ::
  "string \<Rightarrow> bool \<Rightarrow> string \<Rightarrow> fs \<Rightarrow> fs \<times> FileResult \<times> log_record list" where
  "process_file p dry_run backup_ext fs =
     (case read_text fs p of
        Inl exc \<Rightarrow>
          (fs, \<lparr>path = p, changes = [], updated = False\<rparr>,
           [(WARNING, ''Skipping '' @ p @ '' due to read error: '' @ str_error exc)])
      | Inr content \<Rightarrow>
          (let (updated_content, chs) = rewrite_content content
           in if updated_content = content then
                (fs, \<lparr>path = p, changes = [], updated = False\<rparr>, [])
              else if dry_run then
                (fs, \<lparr>path = p, changes = chs, updated = True\<rparr>,
                 (INFO, ''[dry-run] Would update '' @ p) # map (change_message p) chs)
              else
                (let backup = backup_path fs p backup_ext
                 in (write_file p (Text updated_content) (copy2 p backup fs),
                     \<lparr>path = p, changes = chs, updated = True\<rparr>,
                     (INFO, ''Updated '' @ p @ '' (backup: '' @ backup @ '')'')
                       # map (change_message p) chs))))"

text \<open>
  \<^verbatim>\<open>iter_py_files\<close>: the files under the root that \<^verbatim>\<open>os.walk\<close> gives, each once, whose
  name ends in \<^verbatim>\<open>.py\<close> and not in the backup extension. The names are read before the
  files of a directory are processed.
\<close>

definition iter_py_files :: "fs \<Rightarrow> string \<Rightarrow> string \<Rightarrow> string list" where
  "iter_py_files fs root backup_ext =
     filter (\<lambda>p. startswith p (root @ ''/'') \<and> endswith (path_name p) ''.py''
                 \<and> \<not> endswith (path_name p) backup_ext)
       (remdups (map fst fs))"

fun process_files ::
  "string list \<Rightarrow> bool \<Rightarrow> string \<Rightarrow> fs \<Rightarrow> fs \<times> FileResult list \<times> log_record list" where
  "process_files [] dry_run backup_ext fs = (fs, [], [])"
| "process_files (p # ps) dry_run backup_ext fs =
     (let (fs1, result, log1) = process_file p dry_run backup_ext fs;
          (fs2, results, log2) = process_files ps dry_run backup_ext fs1
      in (fs2, result # results, log1 @ log2))"

text \<open>
  \<^verbatim>\<open>main\<close> of the fixer, run with a log file: the file handler opens the log file when
  the logger is set up, and every record is appended to it. The result is the tree and
  the exit code.
\<close>

definition fixer_main :: "string \<Rightarrow> bool \<Rightarrow> string \<Rightarrow> string \<Rightarrow> fs \<Rightarrow> fs \<times> nat" where
  "fixer_main root dry_run backup_ext log_file fs =
     (let fs0 = open_append log_file fs
      in if \<not> (path_exists fs0 root \<or> dir_exists fs0 root) then
           (append_text log_file (format_record (ERROR, ''Path does not exist: '' @ root)) fs0, 2)
         else
           (let (fs1, results, log) =
                  process_files (iter_py_files fs0 root backup_ext) dry_run backup_ext fs0;
                updated_files = filter updated results;
                log' = log @ [(INFO, ''Processed '' @ str_nat (length results)
                                 @ '' files, updated '' @ str_nat (length updated_files))]
            in (append_text log_file (concat (map format_record log')) fs1, 0)))"

section \<open>tools/ryu\_modernize.py\<close>

definition BACKUP_EXT :: string where "BACKUP_EXT = ''.ryu-modernize.bak''"
definition STATE_FILE :: string where "STATE_FILE = ''.ryu-modernize-state.json''"
definition REPORT_JSON :: string where "REPORT_JSON = ''ryu_modernization_report.json''"
definition REPORT_TXT :: string where "REPORT_TXT = ''ryu_modernization_report.txt''"
definition COLLECTIONS_LOG :: string where "COLLECTIONS_LOG = ''collections_fix.log''"

definition REQUIRED_PYTHON :: "nat \<times> nat" where "REQUIRED_PYTHON = (3, 8)"

definition REQUIRED_DEPENDENCIES :: "(string \<times> string) list" where
  "REQUIRED_DEPENDENCIES =
     [(''eventlet'', ''>=0.33.3''),
      (''dnspython'', ''>=2.2.1''),
      (''greenlet'', ''>=1.1.0''),
      (''packaging'', ''>=20.9''),
      (''msgpack'', ''>=1.0.0''),
      (''netaddr'', ''>=0.8.0''),
      (''oslo.config'', ''>=5.2.0''),
      (''routes'', ''>=2.5.1''),
      (''webob'', ''>=1.8.7'')]"

definition REQUIREMENTS_HEADER :: string where
  "REQUIREMENTS_HEADER = ''# Ryu modernization compatibility requirements''"

text \<open>The Ledger: the dictionary \<^verbatim>\<open>state\<close> with its two lists.\<close>

record state =
  backups :: "string list"
  created_files :: "string list"

text \<open>
  What the session reads from outside the tree: the interpreter's version, the
  installed distributions, the \<^verbatim>\<open>packaging\<close> library when it can be imported (its
  comparison \<^verbatim>\<open>version.parse(a) < version.parse(b)\<close>), the clock, and the command runner
  of \<^verbatim>\<open>subprocess.run\<close> for the tests (an OSError text, or the return code with the
  two outputs), which is taken to leave the tree as it is.
\<close>

record env =
  version_info :: "nat \<times> nat"
  sys_version :: string
  metadata_version :: "string \<Rightarrow> string option"
  packaging_lt :: "(string \<Rightarrow> string \<Rightarrow> bool) option"
  now :: string
  run_command :: "string list \<Rightarrow> string + (int \<times> string \<times> string)"

definition join_path :: "string \<Rightarrow> string \<Rightarrow> string" where
  "join_path d name = d @ ''/'' @ name"

definition check_python_version :: "env \<Rightarrow> string option" where
  "check_python_version e =
     (let (major, minor) = version_info e
      in if major < fst REQUIRED_PYTHON
            \<or> (major = fst REQUIRED_PYTHON \<and> minor < snd REQUIRED_PYTHON)
         then Some (''Python '' @ str_nat (fst REQUIRED_PYTHON) @ ''.''
                      @ str_nat (snd REQUIRED_PYTHON) @ ''+ required, found ''
                      @ str_nat major @ ''.'' @ str_nat minor)
         else None)"

definition lstrip_chars :: "string \<Rightarrow> string \<Rightarrow> string" where
  "lstrip_chars cs s = dropWhile (\<lambda>c. c \<in> set cs) s"

text \<open>
  \<^verbatim>\<open>parse_requirement\<close> gives the version text that \<^verbatim>\<open>version.parse\<close> is applied to,
  and nothing without the library.
\<close>

definition parse_requirement :: "env \<Rightarrow> string \<Rightarrow> string option" where
  "parse_requirement e spec =
     (case packaging_lt e of
        None \<Rightarrow> None
      | Some _ \<Rightarrow> Some (lstrip_chars ''<>~=!='' spec))"

definition check_dependencies :: "env \<Rightarrow> (string \<times> dependency) list" where
  "check_dependencies e =
     map (\<lambda>(name, requirement).
            (case metadata_version e name of
               None \<Rightarrow>
                 (name, \<lparr>required = requirement, installed = None, dep_status = ''missing''\<rparr>)
             | Some inst \<Rightarrow>
                 (name, \<lparr>required = requirement, installed = Some inst,
                         dep_status =
                           (case parse_requirement e requirement of
                              None \<Rightarrow> ''unknown''
                            | Some required_version \<Rightarrow>
                                (case packaging_lt e of
                                   None \<Rightarrow> ''unknown''
                                 | Some lt \<Rightarrow>
                                     if lt inst required_version then ''outdated''
                                     else ''ok''))\<rparr>)))
       REQUIRED_DEPENDENCIES"

definition load_state :: "fs \<Rightarrow> string \<Rightarrow> error + state" where
  "load_state fs state_path =
     (case map_of fs state_path of
        None \<Rightarrow> Inr \<lparr>backups = [], created_files = []\<rparr>
      | Some (Ledger b c) \<Rightarrow> Inr \<lparr>backups = b, created_files = c\<rparr>
      | Some _ \<Rightarrow> Inl (JSONDecodeError state_path))"

definition save_state :: "string \<Rightarrow> state \<Rightarrow> fs \<Rightarrow> fs" where
  "save_state state_path st fs = write_file state_path (Ledger (backups st) (created_files st)) fs"

definition ensure_backup :: "string \<Rightarrow> fs \<times> state \<Rightarrow> fs \<times> state" where
  "ensure_backup p = (\<lambda>(fs, st).
     (let backup_path = p @ BACKUP_EXT
      in if path_exists fs backup_path then
           (if backup_path \<notin> set (backups st)
            then (fs, st\<lparr>backups := backups st @ [backup_path]\<rparr>)
            else (fs, st))
         else if \<not> path_exists fs p then (fs, st)
         else (copy2 p backup_path fs, st\<lparr>backups := backups st @ [backup_path]\<rparr>)))"

text \<open>
  \<^verbatim>\<open>apply_collections_fix\<close> runs the fixer of this repository as a subprocess on
  \<^verbatim>\<open>repo_root/ryu\<close>, when its script is in the tree; its exit code is not looked at.
  \<^verbatim>\<open>repo_root.rglob("*" + BACKUP_EXT)\<close> gives the files under the root whose name ends
  in the extension.
\<close>

definition rglob_backups :: "fs \<Rightarrow> string \<Rightarrow> string list" where
  "rglob_backups fs root =
     filter (\<lambda>p. startswith p (root @ ''/'') \<and> endswith (path_name p) BACKUP_EXT)
       (remdups (map fst fs))"

fun register_backups :: "string list \<Rightarrow> state \<Rightarrow> state" where
  "register_backups [] st = st"
| "register_backups (backup # found) st =
     register_backups found
       (if backup \<notin> set (backups st) then st\<lparr>backups := backups st @ [backup]\<rparr> else st)"

definition apply_collections_fix :: "string \<Rightarrow> fs \<times> state \<Rightarrow> fs \<times> state \<times> string option" where
  "apply_collections_fix repo_root = (\<lambda>(fs, st).
     (let log_path = join_path repo_root COLLECTIONS_LOG;
          script = join_path (join_path repo_root ''tools'') ''fix_collections_imports.py'';
          fs1 = (if path_exists fs script
                 then fst (fixer_main (join_path repo_root ''ryu'') False BACKUP_EXT log_path fs)
                 else fs);
          st1 = register_backups (rglob_backups fs1 repo_root) st
      in if path_exists fs1 log_path \<and> log_path \<notin> set (created_files st1) then
           (fs1, st1\<lparr>created_files := created_files st1 @ [log_path]\<rparr>, Some log_path)
         else (fs1, st1, if path_exists fs1 log_path then Some log_path else None)))"

text \<open>
  \<^verbatim>\<open>find_class_block\<close>: the first line that starts with the class header, and the index
  behind its block (the lines that are blank or indented deeper than the header).
\<close>

fun block_end :: "nat \<Rightarrow> nat \<Rightarrow> string list \<Rightarrow> nat" where
  "block_end indent stop [] = stop"
| "block_end indent stop (l # ls) =
     (if strip l = [] then block_end indent (Suc stop) ls
      else if length l - length (lstrip l) \<le> indent then stop
      else block_end indent (Suc stop) ls)"

fun find_class_block_from :: "nat \<Rightarrow> string list \<Rightarrow> string \<Rightarrow> (nat \<times> nat) option" where
  "find_class_block_from idx [] class_name = None"
| "find_class_block_from idx (line # lines) class_name =
     (if startswith line (''class '' @ class_name)
      then Some (idx, block_end (length line - length (lstrip line)) (Suc idx) lines)
      else find_class_block_from (Suc idx) lines class_name)"

definition find_class_block :: "string list \<Rightarrow> string \<Rightarrow> (nat \<times> nat) option" where
  "find_class_block lines class_name = find_class_block_from 0 lines class_name"

abbreviation DQ :: char where "DQ \<equiv> CHR 0x22"

text \<open>
  The text of the new class block. In the source the \<^verbatim>\<open>+\<close> between each \<^verbatim>\<open>newline\<close>
  and the literal on the next line is missing, so that the file as it stands is refused
  by the Python parser; the model reads the expression as the concatenation it spells
  out, line by line.
\<close>

definition new_block :: "string \<Rightarrow> string" where
  "new_block newline =
     concat (map (\<lambda>l. l @ newline)
       [''class _AlreadyHandledResponse(Response):'',
        ''    # XXX: Eventlet API should not be used directly.'',
        ''    # https://github.com/benoitc/gunicorn/pull/2581'',
        ''    from packaging import version'',
        ''    import eventlet'',
        ''    if version.parse(eventlet.__version__) >= version.parse('' @ [DQ] @ ''0.30.3''
          @ [DQ] @ ''):'',
        ''        import eventlet.wsgi'',
        ''        _ALREADY_HANDLED = getattr(eventlet.wsgi, '' @ [DQ] @ ''ALREADY_HANDLED''
          @ [DQ] @ '', None)'',
        ''    else:'',
        ''        from eventlet.wsgi import ALREADY_HANDLED'',
        ''        _ALREADY_HANDLED = ALREADY_HANDLED'',
        [],
        ''    def __call__(self, environ, start_response):'',
        ''        return self._ALREADY_HANDLED''])
     @ newline"

type_synonym session = "fs \<times> state \<times> ChangeRecord list"

definition ensure_eventlet_already_handled :: "string \<Rightarrow> session \<Rightarrow> error + session" where
  "ensure_eventlet_already_handled p = (\<lambda>(fs, st, chs).
     (case read_text fs p of
        Inl exc \<Rightarrow> Inl exc
      | Inr content \<Rightarrow>
          (let lines = splitlines content
           in case find_class_block lines ''_AlreadyHandledResponse'' of
                None \<Rightarrow> Inr (fs, st, chs)
              | Some (start, stop) \<Rightarrow>
                  (let block_text = concat (take (stop - start) (drop start lines))
                   in if contains block_text ''eventlet.wsgi''
                         \<and> contains block_text ''ALREADY_HANDLED''
                      then Inr (fs, st, chs)
                      else
                        (let newline = (if contains content [CR, LF] then [CR, LF] else [LF]);
                             (fs1, st1) = ensure_backup p (fs, st);
                             new_content = concat (take start lines) @ new_block newline
                                             @ concat (drop stop lines)
                         in Inr (write_file p (Text new_content) fs1, st1,
                                 chs @ [\<lparr>cr_path = p,
                                         cr_description =
                                           ''Updated _AlreadyHandledResponse for eventlet compatibility''\<rparr>]))))))"

text \<open>\<^verbatim>\<open>s.replace(old, new, 1)\<close> for a text \<open>old\<close> that is not empty.\<close>

definition replace_first :: "string \<Rightarrow> string \<Rightarrow> string \<Rightarrow> string" where
  "replace_first old new s =
     (case find_sub old s of
        None \<Rightarrow> s
      | Some (front, back) \<Rightarrow> front @ new @ back)"

definition ensure_dnspython_compat :: "string \<Rightarrow> session \<Rightarrow> error + session" where
  "ensure_dnspython_compat p = (\<lambda>(fs, st, chs).
     (case read_text fs p of
        Inl exc \<Rightarrow> Inl exc
      | Inr content \<Rightarrow>
          if contains content ''dnspython_compat.patch_eventlet_dnspython()'' then Inr (fs, st, chs)
          else if \<not> contains content (''    import eventlet'' @ [LF]) then Inr (fs, st, chs)
          else
            (let crlf = contains content [CR, LF];
                 newline = (if crlf then [CR, LF] else [LF]);
                 target_line = (if crlf then ''    import eventlet'' @ [CR, LF]
                                else ''    import eventlet'' @ [LF]);
                 insertion = target_line
                   @ ''    from ryu.lib import dnspython_compat'' @ newline
                   @ ''    dnspython_compat.patch_eventlet_dnspython()'' @ newline;
                 (fs1, st1) = ensure_backup p (fs, st);
                 new_content = replace_first target_line insertion content
             in Inr (write_file p (Text new_content) fs1, st1,
                     chs @ [\<lparr>cr_path = p,
                             cr_description = ''Inserted dnspython tlsabase compatibility hook''\<rparr>]))))"

text \<open>\<^verbatim>\<open>str.lower\<close> on the code points below 256.\<close>

definition lower_char :: "char \<Rightarrow> char" where
  "lower_char c =
     (let n = (of_char c :: nat)
      in if (65 \<le> n \<and> n \<le> 90) \<or> (192 \<le> n \<and> n \<le> 214) \<or> (216 \<le> n \<and> n \<le> 222)
         then char_of (n + 32) else c)"

definition lower :: "string \<Rightarrow> string" where
  "lower s = map lower_char s"

fun split_at_first_token :: "string list \<Rightarrow> string \<Rightarrow> string option" where
  "split_at_first_token [] name = None"
| "split_at_first_token (token # tokens) name =
     (case find_sub token name of
        Some (front, _) \<Rightarrow> Some front
      | None \<Rightarrow> split_at_first_token tokens name)"

definition normalize_requirement_line :: "string \<Rightarrow> string option" where
  "normalize_requirement_line line =
     (let stripped = strip line
      in if stripped = [] \<or> startswith stripped ''#'' then None
         else
           (let name = hd (split_char (CHR '';'') stripped)
            in case split_at_first_token [''=='', ''>='', ''<='', ''~='', ''<'', ''>''] name of
                 Some front \<Rightarrow> Some (lower (strip front))
               | None \<Rightarrow> Some (lower (strip name))))"

text \<open>\<^verbatim>\<open>s.splitlines()\<close>: the lines without their line boundaries.\<close>

definition drop_line_end :: "string \<Rightarrow> string" where
  "drop_line_end l =
     (if endswith l [CR, LF] then take (length l - 2) l
      else if l \<noteq> [] \<and> is_linebreak (last l) then butlast l
      else l)"

definition splitlines_plain :: "string \<Rightarrow> string list" where
  "splitlines_plain s = map drop_line_end (splitlines s)"

text \<open>
  The loop of \<^verbatim>\<open>update_requirements\<close> over the lines: \<^verbatim>\<open>updated_lines\<close> and the names
  found (\<^verbatim>\<open>existing_names\<close>).
\<close>

fun requirement_lines :: "string list \<Rightarrow> string list \<times> string list" where
  "requirement_lines [] = ([], [])"
| "requirement_lines (line # lines) =
     (let (updated_lines, existing_names) = requirement_lines lines
      in case normalize_requirement_line line of
           None \<Rightarrow> (line # updated_lines, existing_names)
         | Some name \<Rightarrow>
             (case map_of REQUIRED_DEPENDENCIES name of
                Some spec \<Rightarrow>
                  if name \<noteq> [] then ((name @ spec) # updated_lines, name # existing_names)
                  else (line # updated_lines, existing_names)
              | None \<Rightarrow> (line # updated_lines, existing_names)))"

definition update_requirements :: "string \<Rightarrow> session \<Rightarrow> error + session" where
  "update_requirements p = (\<lambda>(fs, st, chs).
     (let required_lines =
            [REQUIREMENTS_HEADER, []] @ map (\<lambda>(name, spec). name @ spec) REQUIRED_DEPENDENCIES
      in case (if path_exists fs p then read_text fs p else Inr []) of
           Inl exc \<Rightarrow> Inl exc
         | Inr content \<Rightarrow>
             (let lines = (if path_exists fs p then splitlines_plain content else []);
                  (updated_lines, existing_names) = requirement_lines lines;
                  missing = filter (\<lambda>name. name \<notin> set existing_names)
                              (map fst REQUIRED_DEPENDENCIES);
                  updated_lines =
                    (if missing \<noteq> [] then
                       (if updated_lines \<noteq> [] \<and> strip (last updated_lines) \<noteq> []
                        then updated_lines @ [[]] else updated_lines) @ required_lines
                     else updated_lines);
                  new_content = rstrip (join [LF] updated_lines) @ [LF]
              in if new_content = content then Inr (fs, st, chs)
                 else
                   (let (fs1, st1) =
                          (if path_exists fs p then ensure_backup p (fs, st)
                           else (fs, st\<lparr>created_files := created_files st @ [p]\<rparr>))
                    in Inr (write_file p (Text new_content) fs1, st1,
                            chs @ [\<lparr>cr_path = p,
                                    cr_description =
                                      ''Updated requirements with modernization-compatible versions''\<rparr>])))))"

definition run_tests :: "env \<Rightarrow> string list \<Rightarrow> test_result" where
  "run_tests e cmd =
     (if cmd = [] then
        \<lparr>tests_command = join '' '' cmd, tests_status = ''skipped'', tests_output = []\<rparr>
      else
        (case run_command e cmd of
           Inr (returncode, stdout, stderr) \<Rightarrow>
             \<lparr>tests_command = join '' '' cmd,
              tests_status = (if returncode = 0 then ''passed'' else ''failed''),
              tests_output = strip (stdout @ stderr)\<rparr>
         | Inl exc \<Rightarrow>
             \<lparr>tests_command = join '' '' cmd, tests_status = ''error'', tests_output = exc\<rparr>))"

definition str_bool :: "bool \<Rightarrow> string" where
  "str_bool b = (if b then ''True'' else ''False'')"

definition str_option :: "string option \<Rightarrow> string" where
  "str_option x = (case x of None \<Rightarrow> ''None'' | Some s \<Rightarrow> s)"

definition report_text :: "report \<Rightarrow> string" where
  "report_text r =
     (let lines =
            [''Ryu modernization report ('' @ timestamp r @ '')'', [],
             ''Python version: '' @ python_version r]
            @ (case python_issue r of
                 None \<Rightarrow> []
               | Some issue \<Rightarrow> if issue = [] then [] else [''Python issue: '' @ issue])
            @ [[], ''Dependency status:'']
            @ map (\<lambda>(name, details).
                     ''- '' @ name @ '': '' @ dep_status details @ '' (installed=''
                       @ str_option (installed details) @ '', required='' @ required details
                       @ '')'')
                (dependencies r)
            @ [[], ''Changes applied:'']
            @ (if report_changes r \<noteq> []
               then map (\<lambda>c. ''- '' @ cr_path c @ '': '' @ cr_description c) (report_changes r)
               else [''- No changes needed.''])
            @ [[], ''Tests:'',
               ''- '' @ tests_status (tests r) @ '': '' @ tests_command (tests r)]
            @ (if tests_output (tests r) \<noteq> [] then [''Output:'', tests_output (tests r)] else [])
            @ [[], ''Compatibility summary:'',
               ''- python_ok: '' @ str_bool (python_ok (report_summary r)),
               ''- dependencies_ok: '' @ str_bool (dependencies_ok (report_summary r)),
               ''- patches_applied: '' @ str_bool (patches_applied (report_summary r)),
               ''- tests_status: '' @ summary_tests_status (report_summary r)]
      in strip (join [LF] lines) @ [LF])"

definition write_report ::
  "env \<Rightarrow> string \<Rightarrow> fs \<times> state \<Rightarrow> ChangeRecord list \<Rightarrow> (string \<times> dependency) list
     \<Rightarrow> test_result \<Rightarrow> string option \<Rightarrow> fs \<times> state" where
  "write_report e repo_root = (\<lambda>(fs, st) chs dependency_status tsts issue.
     (let r = \<lparr>timestamp = now e,
               python_version = sys_version e,
               python_issue = issue,
               dependencies = dependency_status,
               report_changes = chs,
               tests = tsts,
               report_summary =
                 \<lparr>python_ok = (issue = None),
                  dependencies_ok = list_all (\<lambda>(_, d). dep_status d = ''ok'') dependency_status,
                  patches_applied = (chs \<noteq> []),
                  summary_tests_status = tests_status tsts\<rparr>\<rparr>;
          report_json_path = join_path repo_root REPORT_JSON;
          report_txt_path = join_path repo_root REPORT_TXT;
          (fs1, st1) =
            (if path_exists fs report_json_path then ensure_backup report_json_path (fs, st)
             else (fs, st\<lparr>created_files := created_files st @ [report_json_path]\<rparr>));
          (fs2, st2) =
            (if path_exists fs1 report_txt_path then ensure_backup report_txt_path (fs1, st1)
             else (fs1, st1\<lparr>created_files := created_files st1 @ [report_txt_path]\<rparr>))
      in (write_file report_txt_path (Text (report_text r))
            (write_file report_json_path (Report r) fs2), st2)))"

text \<open>The two loops of \<^verbatim>\<open>rollback\<close>, over the backups and over the created files.\<close>

fun restore_backups :: "string list \<Rightarrow> fs \<Rightarrow> error + fs" where
  "restore_backups [] fs = Inr fs"
| "restore_backups (backup_str # rest) fs =
     (if \<not> path_exists fs backup_str then restore_backups rest fs
      else
        (case with_name backup_str
                (take (length (path_name backup_str) - length BACKUP_EXT) (path_name backup_str)) of
           Inl exc \<Rightarrow> Inl exc
         | Inr original \<Rightarrow> restore_backups rest (unlink backup_str (copy2 backup_str original fs))))"

fun delete_created :: "string list \<Rightarrow> fs \<Rightarrow> fs" where
  "delete_created [] fs = fs"
| "delete_created (created # rest) fs =
     delete_created rest (if path_exists fs created then unlink created fs else fs)"

definition rollback :: "string \<Rightarrow> fs \<Rightarrow> error + (fs \<times> int \<times> string list)" where
  "rollback repo_root fs =
     (let state_path = join_path repo_root STATE_FILE
      in if \<not> path_exists fs state_path then
           Inr (fs, 0, [''No modernization state found; nothing to rollback.''])
         else
           (case load_state fs state_path of
              Inl exc \<Rightarrow> Inl exc
            | Inr st \<Rightarrow>
                (case restore_backups (backups st) fs of
                   Inl exc \<Rightarrow> Inl exc
                 | Inr fs1 \<Rightarrow>
                     Inr (unlink state_path (delete_created (created_files st) fs1), 0,
                          [''Rollback completed.'']))))"

text \<open>\<^verbatim>\<open>s.split()\<close>: the words between runs of whitespace.\<close>

fun split_words_from :: "string \<Rightarrow> string \<Rightarrow> string list" where
  "split_words_from cur [] = (if cur = [] then [] else [cur])"
| "split_words_from cur (c # cs) =
     (if isspace c then (if cur = [] then [] else [cur]) @ split_words_from [] cs
      else split_words_from (cur @ [c]) cs)"

definition split_words :: "string \<Rightarrow> string list" where
  "split_words s = split_words_from [] s"

definition bind :: "error + 'a \<Rightarrow> ('a \<Rightarrow> error + 'b) \<Rightarrow> error + 'b" where
  "bind m f = (case m of Inl exc \<Rightarrow> Inl exc | Inr x \<Rightarrow> f x)"

text \<open>
  \<^verbatim>\<open>apply\<close>: the session, from loading the Ledger to saving it. The result is the tree,
  the exit code and the lines printed, or the exception that ends the process. The
  version check and the dependency audit read the environment only.
\<close>

definition wsgi_path :: "string \<Rightarrow> string" where
  "wsgi_path repo_root = join_path (join_path (join_path repo_root ''ryu'') ''app'') ''wsgi.py''"

definition hub_path :: "string \<Rightarrow> string" where
  "hub_path repo_root = join_path (join_path (join_path repo_root ''ryu'') ''lib'') ''hub.py''"

definition choose_tests :: "env \<Rightarrow> string option \<Rightarrow> bool \<Rightarrow> test_result" where
  "choose_tests e test_command skip_tests =
     (if skip_tests then
        \<lparr>tests_command = [], tests_status = ''skipped'', tests_output = []\<rparr>
      else
        (case test_command of
           None \<Rightarrow> run_tests e [''./run_tests.sh'']
         | Some cmd \<Rightarrow>
             if cmd = [] then run_tests e [''./run_tests.sh'']
             else run_tests e (split_words cmd)))"

definition state_path_of :: "string \<Rightarrow> string" where
  "state_path_of repo_root = join_path repo_root STATE_FILE"

text \<open>
  The steps of \<^verbatim>\<open>apply\<close> between loading the Ledger and printing the result, in their
  order; each takes and gives the tree, the Ledger in memory and the changes. A session
  that is interrupted has run the first steps only.
\<close>

definition collections_step :: "string \<Rightarrow> session \<Rightarrow> error + session" where
  "collections_step repo_root = (\<lambda>(fs, st, chs).
     (let (fs1, st1, log_path) = apply_collections_fix repo_root (fs, st)
      in Inr (fs1, st1,
              chs @ (case log_path of
                       None \<Rightarrow> []
                     | Some lp \<Rightarrow>
                         [\<lparr>cr_path = lp,
                           cr_description = ''Collections import fix log generated''\<rparr>]))))"

definition report_step ::
  "env \<Rightarrow> string \<Rightarrow> string option \<Rightarrow> bool \<Rightarrow> session \<Rightarrow> error + session" where
  "report_step e repo_root test_command skip_tests = (\<lambda>(fs, st, chs).
     (let tsts = choose_tests e test_command skip_tests;
          (fs1, st1) =
            write_report e repo_root (fs, st) chs (check_dependencies e) tsts
              (check_python_version e)
      in Inr (fs1, st1, chs)))"

definition save_step :: "string \<Rightarrow> session \<Rightarrow> error + session" where
  "save_step repo_root = (\<lambda>(fs, st, chs).
     Inr (save_state (state_path_of repo_root) st fs, st, chs))"

definition apply_steps ::
  "env \<Rightarrow> string \<Rightarrow> string option \<Rightarrow> bool \<Rightarrow> (session \<Rightarrow> error + session) list" where
  "apply_steps e repo_root test_command skip_tests =
     [collections_step repo_root,
      ensure_eventlet_already_handled (wsgi_path repo_root),
      ensure_dnspython_compat (hub_path repo_root),
      update_requirements (join_path repo_root ''requirements.txt''),
      report_step e repo_root test_command skip_tests,
      save_step repo_root]"

fun run_steps :: "(session \<Rightarrow> error + session) list \<Rightarrow> session \<Rightarrow> error + session" where
  "run_steps [] s = Inr s"
| "run_steps (step # steps) s = bind (step s) (run_steps steps)"


definition apply_session ::
  "env \<Rightarrow> string \<Rightarrow> string option \<Rightarrow> bool \<Rightarrow> fs \<Rightarrow> error + (fs \<times> int \<times> string list)" where
  "apply_session e repo_root test_command skip_tests fs =
     bind (load_state fs (state_path_of repo_root)) (\<lambda>st.
       bind (run_steps (apply_steps e repo_root test_command skip_tests) (fs, st, []))
         (\<lambda>(fs', _, _).
            Inr (fs', 0,
                 [''Modernization complete. Report written to:'',
                  ''- '' @ join_path repo_root REPORT_JSON,
                  ''- '' @ join_path repo_root REPORT_TXT])))"

section \<open>Invariant of a session and sample inputs\<close>









section \<open>Properties\<close>

subsection \<open>Patterns and text\<close>

lemma try_down_skip:
  "least \<le> n \<Longrightarrow> (\<And>m. least \<le> m \<Longrightarrow> m < n \<Longrightarrow> f m = None) \<Longrightarrow> try_down n least f = f n"
proof (induction n)
  case 0
  then show ?case by simp
next
  case (Suc n)
  show ?case
  proof (cases "f (Suc n)")
    case (Some r)
    then show ?thesis using Suc.prems(1) by simp
  next
    case None
    show ?thesis
    proof (cases "least \<le> n")
      case True
      have "try_down n least f = f n"
        using Suc.IH [OF True] Suc.prems(2) by simp
      moreover have "f n = None" using Suc.prems(2) [of n] True by simp
      ultimately show ?thesis using None Suc.prems(1) by simp
    next
      case False
      then have "least = Suc n" using Suc.prems(1) by simp
      then show ?thesis using None by (cases n) simp_all
    qed
  qed
qed

lemma try_down_below: "n < least \<Longrightarrow> try_down n least f = None"
  by (cases n) simp_all

lemma greedy_det:
  assumes "\<And>g p c cs. cls c \<Longrightarrow> k g p (c # cs) = None"
  shows "greedy cls least k prev s =
           (if least \<le> length (takeWhile cls s)
            then k (takeWhile cls s)
                   (if takeWhile cls s = [] then prev else Some (last (takeWhile cls s)))
                   (dropWhile cls s)
            else None)"
proof (cases "least \<le> length (takeWhile cls s)")
  case False
  then show ?thesis by (simp add: greedy_def try_down_below)
next
  case True
  let ?n = "length (takeWhile cls s)"
  let ?f = "\<lambda>n. k (take n s) (if n = 0 then prev else Some (s ! (n - 1))) (drop n s)"
  have fail: "?f m = None" if "m < ?n" for m
  proof -
    have "m < length s" using that length_takeWhile_le [of cls s] by (simp add: less_le_trans)
    then have d: "drop m s = s ! m # drop (Suc m) s" by (simp add: Cons_nth_drop_Suc)
    have "cls (s ! m)" using that
      by (metis nth_mem set_takeWhileD takeWhile_nth)
    then show ?thesis using assms d by simp
  qed
  have "try_down ?n least ?f = ?f ?n"
    using True fail by (intro try_down_skip) auto
  moreover have "take ?n s = takeWhile cls s"
    by (metis append_eq_conv_conj takeWhile_dropWhile_id)
  moreover have "drop ?n s = dropWhile cls s"
    by (metis append_eq_conv_conj takeWhile_dropWhile_id)
  moreover have "?n \<noteq> 0 \<Longrightarrow> s ! (?n - 1) = last (takeWhile cls s)"
    by (metis One_nat_def diff_less last_conv_nth length_greater_0_conv less_numeral_extra(1) list.size(3) takeWhile_nth)
  ultimately show ?thesis using True by (auto simp: greedy_def)
qed

lemma lit_Cons_None: "l \<noteq> [] \<Longrightarrow> c \<noteq> hd l \<Longrightarrow> lit l k p (c # cs) = None"
  by (cases l) (auto simp: lit_def startswith_def)

lemma lit_append: "lit l k p (l @ s) = k (if l = [] then p else Some (last l)) s"
  by (simp add: lit_def startswith_def)

lemma takeWhile_all_append: "\<forall>c\<in>set xs. P c \<Longrightarrow> takeWhile P (xs @ ys) = xs @ takeWhile P ys"
  by (induction xs) auto

lemma dropWhile_all_append: "\<forall>c\<in>set xs. P c \<Longrightarrow> dropWhile P (xs @ ys) = dropWhile P ys"
  by (induction xs) auto

lemma isspace_simps [simp]:
  "\<not> isspace (CHR ''f'')" "\<not> isspace (CHR ''c'')" "\<not> isspace (CHR ''i'')" "isspace (CHR '' '')"
  by (simp_all add: isspace_def)

lemma ws_lit:
  assumes "\<forall>c\<in>set w. isspace c" "least \<le> length w" "l \<noteq> []" "\<not> isspace (hd l)"
  shows "greedy isspace least (\<lambda>g. lit l (k g)) p (w @ l @ s) = k w (Some (last l)) s"
proof -
  have "takeWhile isspace (w @ l @ s) = w" "dropWhile isspace (w @ l @ s) = l @ s"
    using assms(1,3,4) by (cases l; simp add: takeWhile_all_append dropWhile_all_append)+
  moreover have "lit l (k g) q (c # cs) = None" if "isspace c" for g q c cs
    using that assms(3,4) by (metis lit_Cons_None)
  ultimately show ?thesis
    using assms(2,3) by (subst greedy_det) (simp_all add: lit_append)
qed

lemma FROM_match:
  assumes "\<forall>c\<in>set indent. isspace c"
    and "w1 \<noteq> []" "\<forall>c\<in>set w1. isspace c"
    and "w2 \<noteq> []" "\<forall>c\<in>set w2. isspace c"
    and "w3 \<noteq> []" "\<forall>c\<in>set w3. isspace c"
    and "rest \<noteq> []" "\<not> isspace (hd rest)" "LF \<notin> set rest"
  shows "re_match FROM_COLLECTIONS_RE
           (indent @ ''from'' @ w1 @ ''collections'' @ w2 @ ''import'' @ w3 @ rest)
         = Some (indent, rest)"
proof -
  have nn: "\<forall>c\<in>set rest. not_newline c" using assms(10) by (auto simp: not_newline_def)
  have tw: "takeWhile isspace rest = []" "dropWhile isspace rest = rest"
    using assms(8,9) by (cases rest; simp)+
  have last_step: "greedy isspace 1 (\<lambda>_. greedy not_newline 1 (\<lambda>imports.
               end_of_text (accept (indent, imports)))) p (w3 @ rest) = Some (indent, rest)" for p
  proof -
    let ?k = "\<lambda>_. greedy not_newline (1::nat) (\<lambda>imports. end_of_text (accept (indent, imports)))"
    let ?f = "\<lambda>n. ?k (take n (w3 @ rest)) (if n = 0 then p else Some ((w3 @ rest) ! (n - 1))) (drop n (w3 @ rest))"
    have run: "takeWhile isspace (w3 @ rest) = w3"
      using assms(7) tw by (simp add: takeWhile_all_append)
    have inner: "greedy not_newline 1 (\<lambda>imports. end_of_text (accept (indent, imports))) q rest = Some (indent, rest)" for q
    proof -
      have r: "takeWhile not_newline rest = rest" using nn by (simp add: takeWhile_eq_all_conv)
      have "1 \<le> length rest" using assms(8) by (cases rest) simp_all
      then have "try_down (length rest) 1 (\<lambda>n. end_of_text (accept (indent, take n rest)) (if n = 0 then q else Some (rest ! (n - 1))) (drop n rest))
            = Some (indent, rest)"
        by (cases "length rest") (simp_all add: end_of_text_def accept_def)
      then show ?thesis by (simp add: greedy_def r)
    qed
    have "?f (length w3) = Some (indent, rest)" using inner by simp
    moreover have "1 \<le> length w3" using assms(6) by (cases w3) simp_all
    ultimately have "try_down (length w3) 1 ?f = Some (indent, rest)"
      by (cases "length w3") simp_all
    then show ?thesis by (simp add: greedy_def run)
  qed
  show ?thesis
    unfolding re_match_def FROM_COLLECTIONS_RE_def
    apply (subst ws_lit)
        apply (use assms in \<open>simp_all add: Suc_le_eq\<close>)[4]
    apply (subst ws_lit)
        apply (use assms in \<open>simp_all add: Suc_le_eq\<close>)[4]
    apply (subst ws_lit)
        apply (use assms in \<open>simp_all add: Suc_le_eq\<close>)[4]
    apply (rule last_step)
    done
qed

lemma rstrip_chars_append:
  assumes "xs \<noteq> []" "last xs \<notin> set cs" "set e \<subseteq> set cs"
  shows "rstrip_chars cs (xs @ e) = xs"
proof -
  have "dropWhile (\<lambda>c. c \<in> set cs) (rev e @ rev xs) = dropWhile (\<lambda>c. c \<in> set cs) (rev xs)"
    using assms(3) by (intro dropWhile_all_append) auto
  moreover have "dropWhile (\<lambda>c. c \<in> set cs) (rev xs) = rev xs"
  proof -
    obtain ys y where "xs = ys @ [y]" using assms(1) by (metis rev_exhaust)
    then show ?thesis using assms(2) by simp
  qed
  ultimately show ?thesis by (simp add: rstrip_chars_def)
qed

lemma endswith_append: "endswith (xs @ e) e"
  by (simp add: endswith_def)

lemma endswith_last:
  assumes "e \<noteq> []" "endswith s e"
  shows "s \<noteq> [] \<and> last s = last e"
proof -
  have le: "length e \<le> length s" and d: "drop (length s - length e) s = e"
    using assms(2) by (simp_all add: endswith_def)
  have "s \<noteq> []" using le assms(1) by auto
  moreover have "last (drop (length s - length e) s) = last s"
    using assms(1) le \<open>s \<noteq> []\<close> by (intro last_drop) (cases e, simp_all)
  ultimately show ?thesis using d by simp
qed

lemma split_comment_append:
  assumes "CHR ''#'' \<notin> set body" "comment = [] \<or> hd comment = CHR ''#''"
  shows "split_comment (body @ comment) = (body, comment)"
proof (cases comment)
  case Nil
  then show ?thesis using assms(1) by (simp add: split_comment_def)
next
  case (Cons c cs)
  then have c: "c = CHR ''#''" using assms(2) by simp
  have b: "\<forall>x\<in>set body. x \<noteq> CHR ''#''" using assms(1) by auto
  show ?thesis using Cons c
    by (simp add: split_comment_def takeWhile_all_append [OF b] dropWhile_all_append [OF b])
qed

lemma endswith_snoc2: "endswith (ys @ [a, b]) [c, d] \<longleftrightarrow> [a, b] = [c, d]"
  by (simp add: endswith_def)

text \<open>
  The import-splitting rule on the list of lines, in terms of the items that
  \<^verbatim>\<open>parse_import_items\<close> finds and of the base names that \<^verbatim>\<open>base_import_name\<close> gives them.
  A line is written as the statement
  \<open>indent from collections import body comment ending\<close>: an indentation, the three
  keywords separated by whitespace, the import list, a trailing comment (empty or starting
  with \<open>#\<close>) and a line ending (none, LF or CR LF), with no CR or LF inside. Its
  named imports are the items of the import list; the ones moved to
  \<open>collections.abc\<close> are those whose base name is \<open>MutableMapping\<close>. When none
  is moved, or an item is the wildcard, \<open>process_from_collections_import\<close> returns the line
  as it is, with no change. When some are moved and some stay, it returns two lines: the
  remaining items in a \<open>from collections import\<close> statement that keeps the comment, the
  moved items in a \<open>from collections.abc import\<close> statement, both with the indentation
  and the line ending of the line. When all are moved, it returns the one
  \<open>from collections.abc import\<close> statement, with the indentation, the comment and the
  line ending.
\<close>

theorem import_split_rule:
  assumes indent: "\<forall>c\<in>set indent. isspace c"
    and w1: "w1 \<noteq> [] \<and> (\<forall>c\<in>set w1. isspace c)"
    and w2: "w2 \<noteq> [] \<and> (\<forall>c\<in>set w2. isspace c)"
    and w3: "w3 \<noteq> [] \<and> (\<forall>c\<in>set w3. isspace c)"
    and rest: "body @ comment \<noteq> [] \<and> \<not> isspace (hd (body @ comment))"
    and one_line: "CR \<notin> set (body @ comment) \<and> LF \<notin> set (body @ comment)"
    and body: "CHR ''#'' \<notin> set body"
    and comment: "comment = [] \<or> hd comment = CHR ''#''"
    and ending: "ending = [] \<or> ending = [LF] \<or> ending = [CR, LF]"
    and line: "line = indent @ ''from'' @ w1 @ ''collections'' @ w2 @ ''import'' @ w3
                 @ body @ comment @ ending"
    and items: "items = parse_import_items body"
    and moved: "moved = filter (\<lambda>item. base_import_name item = ''MutableMapping'') items"
    and kept: "kept = filter (\<lambda>item. base_import_name item \<noteq> ''MutableMapping'') items"
  shows "(if ''*'' \<in> set items \<or> moved = [] then
            process_from_collections_import line n = ([line], [])
          else if kept \<noteq> [] then
            fst (process_from_collections_import line n) =
              [indent @ ''from collections import '' @ join '', '' kept @ comment @ ending,
               indent @ ''from collections.abc import '' @ join '', '' moved @ ending]
          else
            fst (process_from_collections_import line n) =
              [indent @ ''from collections.abc import '' @ join '', '' moved @ comment
                 @ ending])"
proof -
  define rest where "rest = body @ comment"
  define Y where "Y = indent @ ''from'' @ w1 @ ''collections'' @ w2 @ ''import'' @ w3 @ rest"
  have l: "line = Y @ ending" using line by (simp add: Y_def rest_def)
  have rne: "rest \<noteq> []" using rest by (simp add: rest_def)
  have ne: "Y \<noteq> []" by (simp add: Y_def)
  have "last (indent @ ''from'' @ w1 @ ''collections'' @ w2 @ ''import'' @ w3 @ rest) = last rest"
    using rne by simp
  then have lst: "last Y = last rest" by (simp only: Y_def)
  have "last rest \<in> set rest" using rne by (rule last_in_set)
  then have lastY: "last Y \<noteq> CR" "last Y \<noteq> LF"
    using one_line lst by (auto simp: rest_def)
  have Ysplit: "butlast Y @ [last Y] = Y" using ne by (rule append_butlast_last_id)
  have e_sub: "set ending \<subseteq> set [CR, LF]" using ending by auto
  have strip: "rstrip_chars [CR, LF] line = Y"
    unfolding l using ne lastY e_sub by (intro rstrip_chars_append) auto
  have m: "re_match FROM_COLLECTIONS_RE Y = Some (indent, rest)"
    unfolding Y_def
    using indent w1 w2 w3 rest one_line by (intro FROM_match) (simp_all add: rest_def)
  have no_nl: "\<not> endswith Y [LF]" "\<not> endswith Y [CR, LF]"
    using endswith_last [of "[LF]" Y] endswith_last [of "[CR, LF]" Y] lastY by auto
  have "endswith ((butlast Y @ [last Y]) @ [LF]) [CR, LF] \<longleftrightarrow> last Y = CR"
    by (simp add: endswith_def)
  then have no_cr: "\<not> endswith (Y @ [LF]) [CR, LF]" using lastY Ysplit by simp
  have yes1: "endswith (Y @ [LF]) [LF]" by (rule endswith_append)
  have yes2: "endswith (Y @ [CR, LF]) [CR, LF]" by (rule endswith_append)
  have le: "(if endswith line [CR, LF] then [CR, LF] else if endswith line [LF] then [LF] else [])
            = ending"
    using ending
  proof (elim disjE)
    assume "ending = []"
    then show ?thesis using no_nl l by simp
  next
    assume "ending = [LF]"
    then show ?thesis using no_cr yes1 l by simp
  next
    assume "ending = [CR, LF]"
    then show ?thesis using yes2 l by simp
  qed
  have sc: "split_comment rest = (body, comment)"
    unfolding rest_def using body comment by (rule split_comment_append)
  have mm: "items = [] \<Longrightarrow> moved = []" using moved by simp
  have p: "process_from_collections_import line n =
     (if items = [] \<or> ''*'' \<in> set items then ([line], [])
      else if moved = [] then ([line], [])
      else if kept \<noteq> [] then
        ([indent @ ''from collections import '' @ join '', '' kept @ comment @ ending,
          indent @ ''from collections.abc import '' @ join '', '' moved @ ending],
         [\<lparr>line_no = n, description = ''removed MutableMapping from collections import''\<rparr>])
      else
        ([indent @ ''from collections.abc import '' @ join '', '' moved @ comment @ ending],
         [\<lparr>line_no = n,
           description = ''replaced collections import with collections.abc for MutableMapping''\<rparr>]))"
    by (simp add: process_from_collections_import_def strip m le Let_def sc items [symmetric]
          moved [symmetric] kept [symmetric])
  show ?thesis unfolding p using mm by auto
qed

text \<open>
  The rule at the line
  \<open>from collections import OrderedDict, MutableMapping  # c\<close>, indented by four
  spaces and ended by CR LF.
\<close>

theorem import_split_rule_witness:
  "fst (process_from_collections_import
          (''    from collections import OrderedDict, MutableMapping  # c'' @ [CR, LF]) 7) =
     [''    from collections import OrderedDict# c'' @ [CR, LF],
      ''    from collections.abc import MutableMapping'' @ [CR, LF]]"
proof -
  have i: "parse_import_items ''OrderedDict, MutableMapping  '' = [''OrderedDict'', ''MutableMapping'']"
    by code_simp
  have b: "base_import_name ''OrderedDict'' = ''OrderedDict''"
    "base_import_name ''MutableMapping'' = ''MutableMapping''"
    by code_simp+
  show ?thesis
    using import_split_rule [where indent = "''    ''" and ?w1.0 = "'' ''" and ?w2.0 = "'' ''"
        and ?w3.0 = "'' ''" and body = "''OrderedDict, MutableMapping  ''" and comment = "''# c''"
        and ending = "[CR, LF]" and n = 7, OF _ _ _ _ _ _ _ _ _ refl refl refl refl]
    by (simp add: i b isspace_def)
qed

subsection \<open>Backups, rollback and the session\<close>

lemma map_of_write_file: "map_of (write_file p c fs) = (map_of fs)(p \<mapsto> c)"
  by (simp add: write_file_def update_conv')


lemma path_exists_write_file: "path_exists (write_file p c fs) q \<longleftrightarrow> q = p \<or> path_exists fs q"
  by (simp add: path_exists_def map_of_write_file)

lemma backup_path_loop_free: "\<not> path_exists fs (backup_path_loop fs p ext counter)"
proof (induction fs p ext counter rule: backup_path_loop.induct)
  case (1 fs p ext counter)
  show ?case
  proof (cases "path_exists fs (p @ ext @ ''.'' @ str_nat counter)")
    case True
    then show ?thesis using "1" by (subst backup_path_loop.simps) (simp add: Let_def)
  next
    case False
    then show ?thesis by (subst backup_path_loop.simps) (simp add: Let_def)
  qed
qed

lemma backup_path_free: "\<not> path_exists fs (backup_path fs p ext)"
  by (simp add: backup_path_def Let_def backup_path_loop_free)

lemma backup_path_loop_numbered:
  "\<exists>k\<ge>counter. backup_path_loop fs p ext counter = p @ ext @ ''.'' @ str_nat k
       \<and> (\<forall>j. counter \<le> j \<and> j < k \<longrightarrow> path_exists fs (p @ ext @ ''.'' @ str_nat j))"
proof (induction fs p ext counter rule: backup_path_loop.induct)
  case (1 fs p ext counter)
  show ?case
  proof (cases "path_exists fs (p @ ext @ ''.'' @ str_nat counter)")
    case False
    then have "backup_path_loop fs p ext counter = p @ ext @ ''.'' @ str_nat counter"
      by (subst backup_path_loop.simps) (simp add: Let_def)
    then show ?thesis by (intro exI [of _ counter]) auto
  next
    case True
    then obtain k where k: "Suc counter \<le> k"
        "backup_path_loop fs p ext (Suc counter) = p @ ext @ ''.'' @ str_nat k"
        "\<forall>j. Suc counter \<le> j \<and> j < k \<longrightarrow> path_exists fs (p @ ext @ ''.'' @ str_nat j)"
      using "1" by blast
    have "backup_path_loop fs p ext counter = p @ ext @ ''.'' @ str_nat k"
      using True k(2) by (subst backup_path_loop.simps) (simp add: Let_def)
    moreover have "path_exists fs (p @ ext @ ''.'' @ str_nat j)" if "counter \<le> j" "j < k" for j
      using that True k(3) by (cases "j = counter") auto
    ultimately show ?thesis using k(1) by (intro exI [of _ k]) auto
  qed
qed

text \<open>
  Claim C8. When the tree has no Ledger file, \<open>rollback\<close> returns exit code 0, prints that
  there is nothing to roll back, and leaves the tree as it is.
\<close>

theorem rollback_without_ledger:
  assumes "\<not> path_exists fs (join_path repo_root STATE_FILE)"
  shows "rollback repo_root fs =
           Inr (fs, 0, [''No modernization state found; nothing to rollback.''])"
  using assms by (simp add: rollback_def)

text \<open>
  Claim C10. \<open>ensure_backup\<close> on a path that does not exist, and whose backup does not
  exist either, changes neither the tree nor the Ledger, and raises nothing (the function
  has no error result).
\<close>

theorem ensure_backup_nothing_to_back_up:
  assumes "\<not> path_exists fs p" and "\<not> path_exists fs (p @ BACKUP_EXT)"
  shows "ensure_backup p (fs, st) = (fs, st)"
  using assms by (simp add: ensure_backup_def)

text \<open>
  Claim C9. When the content that \<open>process_file\<close> reads from a file is rewritten to
  itself, the file has no change records and is not reported as updated, nothing is
  logged, and the tree is as it was: no backup is created and the file is not written.
\<close>

theorem process_file_unchanged_content:
  assumes "read_text fs p = Inr content"
    and "fst (rewrite_content content) = content"
  shows "process_file p dry_run backup_ext fs =
           (fs, \<lparr>path = p, changes = [], updated = False\<rparr>, [])"
  using assms by (cases "rewrite_content content") (simp add: process_file_def)

text \<open>
  Claim C3, as amended. When the backup name of a file (the name with the fixed suffix)
  already exists, \<open>ensure_backup\<close> creates no new backup: the tree stays as it is and the
  existing backup is registered in the Ledger. The collections fixer does create one:
  when \<open>process_file\<close> rewrites a file, the backup goes to a name that was free, it holds
  the content the file had, every other file (an older backup among them) is as it was,
  and when the name with the extension was taken, the backup name is that name followed by
  a dot and the first number from 1 on that gives a free name.
\<close>

theorem backups_second_session:
  "(path_exists fs (p @ BACKUP_EXT) \<longrightarrow>
      fst (ensure_backup p (fs, st)) = fs
      \<and> p @ BACKUP_EXT \<in> set (backups (snd (ensure_backup p (fs, st)))))
   \<and> (read_text fs p = Inr content \<and> fst (rewrite_content content) \<noteq> content \<longrightarrow>
        (let b = backup_path fs p ext;
             fs' = fst (process_file p False ext fs)
         in \<not> path_exists fs b
            \<and> map_of fs' b = map_of fs p
            \<and> map_of fs' p = Some (Text (fst (rewrite_content content)))
            \<and> (\<forall>q. q \<noteq> p \<and> q \<noteq> b \<longrightarrow> map_of fs' q = map_of fs q)
            \<and> (path_exists fs (p @ ext) \<longrightarrow>
                 (\<exists>k\<ge>1. b = p @ ext @ ''.'' @ str_nat k
                    \<and> (\<forall>j. 1 \<le> j \<and> j < k \<longrightarrow> path_exists fs (p @ ext @ ''.'' @ str_nat j))))))"
proof (intro conjI impI)
  assume "path_exists fs (p @ BACKUP_EXT)"
  then show "fst (ensure_backup p (fs, st)) = fs"
    and "p @ BACKUP_EXT \<in> set (backups (snd (ensure_backup p (fs, st))))"
    by (simp_all add: ensure_backup_def Let_def)
next
  assume a: "read_text fs p = Inr content \<and> fst (rewrite_content content) \<noteq> content"
  define b where "b = backup_path fs p ext"
  have ex: "map_of fs p \<noteq> None" using a by (auto simp: read_text_def split: option.splits)
  have free: "\<not> path_exists fs b" unfolding b_def by (rule backup_path_free)
  then have bp: "b \<noteq> p" using ex by (auto simp: path_exists_def)
  have pf: "fst (process_file p False ext fs) =
              write_file p (Text (fst (rewrite_content content))) (copy2 p b fs)"
    using a by (cases "rewrite_content content") (simp add: process_file_def b_def Let_def)
  have cp: "map_of (copy2 p b fs) = (map_of fs)(b := map_of fs p)"
    using ex by (auto simp: copy2_def map_of_write_file)
  have num: "\<exists>k\<ge>1. b = p @ ext @ ''.'' @ str_nat k
                    \<and> (\<forall>j. 1 \<le> j \<and> j < k \<longrightarrow> path_exists fs (p @ ext @ ''.'' @ str_nat j))"
    if "path_exists fs (p @ ext)"
    using that backup_path_loop_numbered [of 1 fs p ext] by (simp add: b_def backup_path_def)
  show "let b = backup_path fs p ext; fs' = fst (process_file p False ext fs)
        in \<not> path_exists fs b
            \<and> map_of fs' b = map_of fs p
            \<and> map_of fs' p = Some (Text (fst (rewrite_content content)))
            \<and> (\<forall>q. q \<noteq> p \<and> q \<noteq> b \<longrightarrow> map_of fs' q = map_of fs q)
            \<and> (path_exists fs (p @ ext) \<longrightarrow>
                 (\<exists>k\<ge>1. b = p @ ext @ ''.'' @ str_nat k
                    \<and> (\<forall>j. 1 \<le> j \<and> j < k \<longrightarrow> path_exists fs (p @ ext @ ''.'' @ str_nat j))))"
    unfolding Let_def b_def [symmetric] pf
    using free bp num by (simp add: map_of_write_file cp)
qed

text \<open>
  Claim C8 on a tree with one file.
\<close>

theorem rollback_without_ledger_witness:
  "rollback ''/r'' [(''/r/ryu/app/wsgi.py'', Text ''x'')] =
     Inr ([(''/r/ryu/app/wsgi.py'', Text ''x'')], 0,
          [''No modernization state found; nothing to rollback.''])"
  using rollback_without_ledger [of "[(''/r/ryu/app/wsgi.py'', Text ''x'')]" "''/r''"]
  by (simp add: path_exists_def join_path_def STATE_FILE_def)

text \<open>
  Claim C10 on a tree with one other file.
\<close>

theorem ensure_backup_nothing_to_back_up_witness:
  "ensure_backup ''/r/requirements.txt''
     ([(''/r/setup.py'', Text ''x'')], \<lparr>backups = [], created_files = []\<rparr>) =
     ([(''/r/setup.py'', Text ''x'')], \<lparr>backups = [], created_files = []\<rparr>)"
  using ensure_backup_nothing_to_back_up [of "[(''/r/setup.py'', Text ''x'')]"
      "''/r/requirements.txt''" "\<lparr>backups = [], created_files = []\<rparr>"]
  by (simp add: path_exists_def BACKUP_EXT_def)

text \<open>
  Claim C9 on a file with one import line that no rule touches; the CR LF of the file is
  read as LF, and the file is left with its CR LF.
\<close>

theorem process_file_unchanged_content_witness:
  "process_file ''/r/ryu/a.py'' False ''.bak'' [(''/r/ryu/a.py'', Text (''import os'' @ [CR, LF]))] =
     ([(''/r/ryu/a.py'', Text (''import os'' @ [CR, LF]))],
      \<lparr>path = ''/r/ryu/a.py'', changes = [], updated = False\<rparr>, [])"
proof -
  have r: "read_text [(''/r/ryu/a.py'', Text (''import os'' @ [CR, LF]))] ''/r/ryu/a.py''
             = Inr (''import os'' @ [LF])"
    by (simp add: read_text_def)
  have t: "fst (rewrite_content (''import os'' @ [LF])) = ''import os'' @ [LF]"
    by code_simp
  show ?thesis using process_file_unchanged_content [OF r t] by simp
qed

text \<open>
  Claim C3 as stated fails for \<open>ensure_backup\<close>: in a second session, with the backup of
  the first session on disk, no second backup is created; the tree is as it was.
\<close>

theorem ensure_backup_keeps_old_backup:
  "fst (ensure_backup ''/r/requirements.txt''
          ([(''/r/requirements.txt'', Text ''v2''),
            (''/r/requirements.txt.ryu-modernize.bak'', Text ''v1'')],
           \<lparr>backups = [], created_files = []\<rparr>)) =
     [(''/r/requirements.txt'', Text ''v2''),
      (''/r/requirements.txt.ryu-modernize.bak'', Text ''v1'')]"
  by (simp add: ensure_backup_def path_exists_def BACKUP_EXT_def Let_def)

text \<open>
  Claim C1 (idempotence of the Transformation Engine) at the content
  \<open>import collections #\<close> with no line ending: the first application appends the
  inserted import to the unterminated line, and the second application, on the result of
  the first, inserts the import once more and reports a change.
\<close>

theorem unterminated_import_not_idempotent:
  "transform ''import collections #'' =
     (''import collections #import collections.abc'' @ [LF],
      [\<lparr>line_no = 2, description = ''added import collections.abc''\<rparr>])
   \<and> transform (''import collections #import collections.abc'' @ [LF]) =
     (''import collections #import collections.abc'' @ [LF] @ ''import collections.abc'' @ [LF],
      [\<lparr>line_no = 2, description = ''added import collections.abc''\<rparr>])"
  by code_simp

text \<open>
  Claim C7 (missing-import insertion) at the content \<open>import collections\<close> with no
  line ending: the inserted text is joined to the import line, so the result has no line
  \<open>import collections.abc\<close>.
\<close>

theorem unterminated_import_insertion:
  "rewrite_content ''import collections'' =
     (''import collectionsimport collections.abc'' @ [LF],
      [\<lparr>line_no = 2, description = ''added import collections.abc''\<rparr>])"
  by code_simp

text \<open>
  Claim C6 (import-splitting rule) at a line that has no line ending, the last line of
  the file \<open>from collections import MutableMapping, OrderedDict\<close>: the two statements
  that \<^verbatim>\<open>process_from_collections_import\<close> returns have no line ending either, and the
  content written back joins them into one line that is no statement. The same happens
  when the line ends with a form feed before its LF: \<^verbatim>\<open>splitlines\<close> ends the line at the form
  feed, the form feed is dropped with the whitespace of the import list, and the two
  statements are joined.
\<close>

theorem unterminated_import_split:
  "process_from_collections_import ''from collections import MutableMapping, OrderedDict'' 1 =
     ([''from collections import OrderedDict'', ''from collections.abc import MutableMapping''],
      [\<lparr>line_no = 1, description = ''removed MutableMapping from collections import''\<rparr>])
   \<and> rewrite_content ''from collections import MutableMapping, OrderedDict'' =
     (''from collections import OrderedDictfrom collections.abc import MutableMapping'',
      [\<lparr>line_no = 1, description = ''removed MutableMapping from collections import''\<rparr>])
   \<and> rewrite_content (''from collections import MutableMapping, OrderedDict'' @ [CHR 0x0C, LF]) =
     (''from collections import OrderedDictfrom collections.abc import MutableMapping'' @ [LF],
      [\<lparr>line_no = 1, description = ''removed MutableMapping from collections import''\<rparr>])"
  by code_simp

text \<open>
  Claim C5 (partial-failure isolation) on a tree without \<open>ryu/app/wsgi.py\<close>: the
  session ends with the exception of \<open>read_text\<close>; the patches of \<open>hub.py\<close> and of the
  requirements, which would both apply, do not run, and no report and no Ledger is written.
\<close>

theorem missing_target_aborts_session:
  "apply_session e ''/r'' test_command skip_tests
     [(''/r/ryu/lib/hub.py'', Text (''    import eventlet'' @ [LF])),
      (''/r/requirements.txt'', Text (''eventlet'' @ [LF]))] =
     Inl (FileNotFoundError ''/r/ryu/app/wsgi.py'')"
  by code_simp

text \<open>
  Claim C3, as amended, on a file with a backup of an earlier session beside it.
\<close>

theorem backups_second_session_witness:
  "fst (ensure_backup ''/r/ryu/a.py''
          ([(''/r/ryu/a.py'', Text (''import collections'' @ [LF])),
            (''/r/ryu/a.py.ryu-modernize.bak'', Text ''v1'')],
           \<lparr>backups = [], created_files = []\<rparr>)) =
     [(''/r/ryu/a.py'', Text (''import collections'' @ [LF])),
      (''/r/ryu/a.py.ryu-modernize.bak'', Text ''v1'')]
   \<and> map_of (fst (process_file ''/r/ryu/a.py'' False BACKUP_EXT
                 [(''/r/ryu/a.py'', Text (''import collections'' @ [LF])),
                  (''/r/ryu/a.py.ryu-modernize.bak'', Text ''v1'')]))
        (backup_path [(''/r/ryu/a.py'', Text (''import collections'' @ [LF])),
                  (''/r/ryu/a.py.ryu-modernize.bak'', Text ''v1'')] ''/r/ryu/a.py'' BACKUP_EXT)
       = Some (Text (''import collections'' @ [LF]))
   \<and> map_of (fst (process_file ''/r/ryu/a.py'' False BACKUP_EXT
                 [(''/r/ryu/a.py'', Text (''import collections'' @ [LF])),
                  (''/r/ryu/a.py.ryu-modernize.bak'', Text ''v1'')]))
        ''/r/ryu/a.py.ryu-modernize.bak''
       = Some (Text ''v1'')"
proof -
  let ?fs = "[(''/r/ryu/a.py'', Text (''import collections'' @ [LF])),
              (''/r/ryu/a.py.ryu-modernize.bak'', Text ''v1'')]"
  have r: "read_text ?fs ''/r/ryu/a.py'' = Inr (''import collections'' @ [LF])"
    by (simp add: read_text_def)
  have t: "fst (rewrite_content (''import collections'' @ [LF])) \<noteq> ''import collections'' @ [LF]"
    by code_simp
  have e: "path_exists ?fs (''/r/ryu/a.py'' @ BACKUP_EXT)"
    by (simp add: path_exists_def BACKUP_EXT_def)
  have b: "backup_path ?fs ''/r/ryu/a.py'' BACKUP_EXT \<noteq> ''/r/ryu/a.py.ryu-modernize.bak''"
    using backup_path_free [of ?fs "''/r/ryu/a.py''" BACKUP_EXT] e
    by (auto simp: BACKUP_EXT_def)
  have b2: "backup_path ?fs ''/r/ryu/a.py'' BACKUP_EXT \<noteq> ''/r/ryu/a.py''"
    using backup_path_free [of ?fs "''/r/ryu/a.py''" BACKUP_EXT]
    by (auto simp: path_exists_def)
  show ?thesis
    using backups_second_session [of ?fs "''/r/ryu/a.py''" "\<lparr>backups = [], created_files = []\<rparr>"
        "''import collections'' @ [LF]" BACKUP_EXT] r t e b b2
    by (simp add: Let_def BACKUP_EXT_def)
qed

subsection \<open>What the steps of a session leave untouched\<close>



























subsection \<open>Rollback after a completed session\<close>











































end
